theory Spec2Isabelle
  imports Complex_Main "HOL-Library.Sublist" "HOL-Library.Multiset"
begin

section \<open>The load tester \<open>concurrent_load_test_improved.py\<close>\<close>

text \<open>
  The program drives bank transfers against a PostgreSQL database through psycopg2.
  The database, the clock, the random generator, the thread pool and the file system are
  outside the program. Each of them is an oracle here: a value that fixes what every
  external call answers. A function of the program takes the oracle, runs as the source
  does and returns its Python result together with the list of external calls it made.

  Python's \<open>float\<close> is modelled by \<open>rat\<close> (exact arithmetic), \<open>int\<close> by \<open>int\<close>,
  \<open>str\<close> by \<open>string\<close>, and a value that may be \<open>None\<close> by \<open>option\<close>.
\<close>

subsection \<open>Exceptions and external calls\<close>

text \<open>
  Every exception the code can meet is a subclass of \<open>Exception\<close>. The code tells
  psycopg2's \<open>OperationalError\<close> apart from the rest (line 44); \<open>IndexError\<close> and
  \<open>ValueError\<close> are raised by the standard library. Each carries its message, the
  value of \<open>str(e)\<close>.
\<close>

datatype exn =
    OperationalError string
  | IndexError string
  | ValueError string
  | OtherException string

fun exn_str :: "exn \<Rightarrow> string" where
  "exn_str (OperationalError m) = m"
| "exn_str (IndexError m) = m"
| "exn_str (ValueError m) = m"
| "exn_str (OtherException m) = m"

fun is_OperationalError :: "exn \<Rightarrow> bool" where
  "is_OperationalError (OperationalError m) = True"
| "is_OperationalError e = False"

text \<open>The SQL statements \<open>worker_task\<close> sends through \<open>cur.execute\<close> (lines 60-79).\<close>

datatype stmt =
    SetTimeout int
  | Begin string
  | Transfer2pl int int rat
  | TransferTs int int rat
  | TransferOpt int int rat
  | Debit rat int
  | Credit rat int
  | LogInsert int int rat

text \<open>The external calls of one invocation of \<open>worker_task\<close>, in the order made.\<close>

datatype event =
    Connect
  | Sleep rat
  | Cursor
  | Execute stmt
  | Fetchone
  | Commit
  | Rollback
  | CursorClose
  | ConnClose

text \<open>
  A computation that makes external calls and may raise: from the calls made so far to
  the result (\<open>Inl\<close> the exception raised, \<open>Inr\<close> the value returned) and the calls
  made until then.
\<close>

type_synonym 'a io = "event list \<Rightarrow> (exn + 'a) \<times> event list"

definition io_return :: "'a \<Rightarrow> 'a io" where
  "io_return x = (\<lambda>tr. (Inr x, tr))"

definition io_bind :: "'a io \<Rightarrow> ('a \<Rightarrow> 'b io) \<Rightarrow> 'b io" where
  "io_bind m f = (\<lambda>tr. case m tr of (Inl e, tr') \<Rightarrow> (Inl e, tr') | (Inr x, tr') \<Rightarrow> f x tr')"

text \<open>\<open>try: m except Exception as e: h e\<close>\<close>

definition try_except :: "'a io \<Rightarrow> (exn \<Rightarrow> 'a io) \<Rightarrow> 'a io" where
  "try_except m h = (\<lambda>tr. case m tr of (Inl e, tr') \<Rightarrow> h e tr' | (Inr x, tr') \<Rightarrow> (Inr x, tr'))"

text \<open>
  \<open>try: m finally: f\<close>. The \<open>finally\<close> block runs whatever \<open>m\<close> did; an exception
  it raises replaces the outcome of \<open>m\<close>.
\<close>

definition try_finally :: "'a io \<Rightarrow> unit io \<Rightarrow> 'a io" where
  "try_finally m f =
     (\<lambda>tr. case m tr of (r, tr') \<Rightarrow>
        (case f tr' of (Inl e, tr'') \<Rightarrow> (Inl e, tr'') | (Inr u, tr'') \<Rightarrow> (r, tr'')))"

text \<open>An external call that returns nothing: it is recorded, then raises or not.\<close>

definition call :: "event \<Rightarrow> exn option \<Rightarrow> unit io" where
  "call ev outcome = (\<lambda>tr. (case outcome of None \<Rightarrow> Inr () | Some e \<Rightarrow> Inl e, tr @ [ev]))"

subsection \<open>The database as one invocation sees it\<close>

datatype session = Session

datatype conn_outcome = Connected | ConnectFails exn

text \<open>
  \<open>connect_res k\<close> is what the call of \<open>psycopg2.connect\<close> after \<open>k\<close> failed ones
  does. \<open>fetchone_res\<close> is what \<open>cur.fetchone()\<close> does: raise, return \<open>None\<close> (no row),
  or return a row whose first column is a string or NULL.
\<close>

record db_env =
  connect_res :: "nat \<Rightarrow> conn_outcome"
  cursor_res :: "exn option"
  execute_res :: "stmt \<Rightarrow> exn option"
  fetchone_res :: "exn + string option option"
  commit_res :: "exn option"
  rollback_res :: "exn option"
  cur_close_res :: "exn option"
  conn_close_res :: "exn option"
  utcnow_start :: string
  time_start :: rat
  time_end :: rat
  utcnow_end :: string

subsection \<open>\<open>make_conn\<close> (lines 38-48)\<close>

text \<open>
  The loop \<open>while True\<close> with its variable \<open>attempt\<close>. Every iteration calls
  \<open>psycopg2.connect\<close> once, and \<open>attempt\<close> counts the calls that failed with
  \<open>OperationalError\<close>, so the call of an iteration is call number \<open>attempt\<close> (from 0).
  Only \<open>OperationalError\<close> is caught; the bare \<open>raise\<close> re-raises the exception just
  caught.
\<close>

function make_conn_loop :: "(nat \<Rightarrow> conn_outcome) \<Rightarrow> int \<Rightarrow> rat \<Rightarrow> nat \<Rightarrow> session io" where
  "make_conn_loop connect max_retries backoff attempt tr =
     (case connect attempt of
        Connected \<Rightarrow> (Inr Session, tr @ [Connect])
      | ConnectFails e \<Rightarrow>
          (if is_OperationalError e then
             (if int (attempt + 1) > max_retries then (Inl e, tr @ [Connect])
              else make_conn_loop connect max_retries backoff (attempt + 1)
                     (tr @ [Connect, Sleep (backoff * of_nat (attempt + 1))]))
           else (Inl e, tr @ [Connect])))"
  by pat_completeness auto
termination
  by (relation "measure (\<lambda>(connect, max_retries, backoff, attempt, tr). nat (max_retries + 1 - int attempt))") auto

declare make_conn_loop.simps [simp del]

definition make_conn :: "(nat \<Rightarrow> conn_outcome) \<Rightarrow> int \<Rightarrow> rat \<Rightarrow> session io" where
  "make_conn connect max_retries backoff = make_conn_loop connect max_retries backoff 0"

subsection \<open>\<open>worker_task\<close> (lines 51-105)\<close>

text \<open>\<open>str(e).replace('\n', ' | ')\<close>\<close>

definition replace_newlines :: "string \<Rightarrow> string" where
  "replace_newlines s = concat (map (\<lambda>c. if c = CHR 0x0A then '' | '' else [c]) s)"

text \<open>The dictionary \<open>worker_task\<close> returns (lines 94-105).\<close>

record tx_result =
  res_start_ts :: string
  res_end_ts :: string
  res_mode :: string
  res_isolation :: string
  res_from_id :: int
  res_to_id :: int
  res_amount :: rat
  res_status :: "string option"
  res_latency_s :: rat
  res_error :: "string option"

definition execute :: "db_env \<Rightarrow> stmt \<Rightarrow> unit io" where
  "execute env q = call (Execute q) (execute_res env q)"

definition fetchone :: "db_env \<Rightarrow> string option option io" where
  "fetchone env = (\<lambda>tr. (fetchone_res env, tr @ [Fetchone]))"

text \<open>\<open>status = status_row[0] if status_row else 'UNKNOWN'\<close>\<close>

definition status_of_row :: "string option option \<Rightarrow> string option" where
  "status_of_row status_row = (case status_row of None \<Rightarrow> Some ''UNKNOWN'' | Some col \<Rightarrow> col)"

text \<open>
  The body of the inner \<open>try\<close> (lines 63-81): the statement of the mode, then
  \<open>conn.commit()\<close>. Its value is the pair of the variables \<open>status\<close> and \<open>err_text\<close>
  when it ends; \<open>err_text\<close> is still \<open>None\<close>.
\<close>

definition run_mode :: "db_env \<Rightarrow> string \<Rightarrow> int \<Rightarrow> int \<Rightarrow> rat \<Rightarrow> string option io" where
  "run_mode env mode from_id to_id amt =
     (if mode = ''2pl'' then
        io_bind (execute env (Transfer2pl from_id to_id amt)) (\<lambda>u.
        io_bind (fetchone env) (\<lambda>status_row. io_return (status_of_row status_row)))
      else if mode = ''ts'' then
        io_bind (execute env (TransferTs from_id to_id amt)) (\<lambda>u.
        io_bind (fetchone env) (\<lambda>status_row. io_return (status_of_row status_row)))
      else if mode = ''opt'' then
        io_bind (execute env (TransferOpt from_id to_id amt)) (\<lambda>u.
        io_bind (fetchone env) (\<lambda>status_row. io_return (status_of_row status_row)))
      else
        io_bind (execute env (Debit amt from_id)) (\<lambda>u.
        io_bind (execute env (Credit amt to_id)) (\<lambda>u.
        io_bind (execute env (LogInsert from_id to_id amt)) (\<lambda>u.
        io_return (Some ''COMPLETADA'')))))"

definition transfer_and_commit ::
  "db_env \<Rightarrow> string \<Rightarrow> int \<Rightarrow> int \<Rightarrow> rat \<Rightarrow> (string option \<times> string option) io" where
  "transfer_and_commit env mode from_id to_id amt =
     io_bind (run_mode env mode from_id to_id amt) (\<lambda>status.
     io_bind (call Commit (commit_res env)) (\<lambda>u.
     io_return (status, None)))"

text \<open>The inner handler (lines 82-85).\<close>

definition on_transfer_error :: "db_env \<Rightarrow> exn \<Rightarrow> (string option \<times> string option) io" where
  "on_transfer_error env e =
     io_bind (call Rollback (rollback_res env)) (\<lambda>u.
     (let err_text = replace_newlines (exn_str e)
      in io_return (Some (''ABORT: '' @ err_text), Some err_text)))"

text \<open>The \<open>finally\<close> block (lines 86-88).\<close>

definition release :: "db_env \<Rightarrow> unit io" where
  "release env =
     io_bind (call CursorClose (cur_close_res env)) (\<lambda>u. call ConnClose (conn_close_res env))"

text \<open>
  The body of the outer \<open>try\<close> (lines 57-88). \<open>make_conn(**db_params)\<close> passes the five
  connection parameters only, so \<open>max_retries\<close> and \<open>backoff\<close> have their defaults 3 and
  1.0; the connection parameters reach \<open>psycopg2.connect\<close> alone, whose answer is
  \<open>connect_res\<close>.
\<close>

definition worker_body ::
  "db_env \<Rightarrow> string \<Rightarrow> string \<Rightarrow> int \<Rightarrow> int \<Rightarrow> rat \<Rightarrow> int \<Rightarrow> (string option \<times> string option) io" where
  "worker_body env mode isolation_level from_id to_id amt tx_timeout =
     io_bind (make_conn (connect_res env) 3 1) (\<lambda>conn.
     io_bind (call Cursor (cursor_res env)) (\<lambda>cur.
     io_bind (execute env (SetTimeout (tx_timeout * 1000))) (\<lambda>u.
     io_bind (execute env (Begin isolation_level)) (\<lambda>u.
     try_finally
       (try_except (transfer_and_commit env mode from_id to_id amt) (on_transfer_error env))
       (release env)))))"

text \<open>The outer handler (lines 89-91).\<close>

definition on_worker_error :: "exn \<Rightarrow> (string option \<times> string option) io" where
  "on_worker_error e =
     (let err_text = replace_newlines (exn_str e)
      in io_return (Some (''CONN_ERR: '' @ err_text), Some err_text))"

text \<open>
  The whole function. The amount is a float already (line 116), so \<open>float(amt)\<close> is
  the amount itself.
\<close>

definition worker_task ::
  "db_env \<Rightarrow> string \<Rightarrow> string \<Rightarrow> int \<Rightarrow> int \<Rightarrow> rat \<Rightarrow> int \<Rightarrow> tx_result io" where
  "worker_task env mode isolation_level from_id to_id amt tx_timeout =
     io_bind
       (try_except (worker_body env mode isolation_level from_id to_id amt tx_timeout)
          on_worker_error)
       (\<lambda>(status, err_text).
          (let latency = time_end env - time_start env
           in io_return
                \<lparr> res_start_ts = utcnow_start env @ ''Z'',
                  res_end_ts = utcnow_end env @ ''Z'',
                  res_mode = mode,
                  res_isolation = isolation_level,
                  res_from_id = from_id,
                  res_to_id = to_id,
                  res_amount = amt,
                  res_status = status,
                  res_latency_s = latency,
                  res_error = err_text \<rparr>))"

subsection \<open>The random generator\<close>

text \<open>
  The module \<open>random\<close> is one generator shared by the whole process. Its state is the
  sequence of its future raw draws; a draw takes the first and leaves the rest.
  \<open>random.choice(seq)\<close> raises \<open>IndexError\<close> on an empty sequence and otherwise returns
  \<open>seq[k]\<close> for a drawn \<open>k < len(seq)\<close>. \<open>random.random()\<close> is a 53-bit draw divided
  by \<open>2 ** 53\<close>, and \<open>random.uniform(a, b)\<close> is \<open>a + (b - a) * random()\<close>.
\<close>

type_synonym rng = "nat \<Rightarrow> nat"

definition rng_next :: "rng \<Rightarrow> rng" where
  "rng_next g = (\<lambda>n. g (Suc n))"

definition choice :: "rng \<Rightarrow> 'a list \<Rightarrow> (exn + 'a) \<times> rng" where
  "choice g seq =
     (if seq = [] then (Inl (IndexError ''Cannot choose from an empty sequence''), g)
      else (Inr (seq ! (g 0 mod length seq)), rng_next g))"

definition random_float :: "rng \<Rightarrow> rat \<times> rng" where
  "random_float g = (of_nat (g 0 mod 2 ^ 53) / 2 ^ 53, rng_next g)"

definition uniform :: "rng \<Rightarrow> rat \<Rightarrow> rat \<Rightarrow> rat \<times> rng" where
  "uniform g a b = (case random_float g of (u, g') \<Rightarrow> (a + (b - a) * u, g'))"

text \<open>
  \<open>round(x, ndigits)\<close>: the nearest multiple of \<open>10 ** -ndigits\<close>, a tie going to the
  even one.
\<close>

definition round_half_even :: "rat \<Rightarrow> int" where
  "round_half_even y =
     (let f = \<lfloor>y\<rfloor>; d = y - of_int f
      in if d < 1 / 2 then f
         else if d > 1 / 2 then f + 1
         else if even f then f else f + 1)"

definition py_round :: "rat \<Rightarrow> nat \<Rightarrow> rat" where
  "py_round x ndigits = of_int (round_half_even (x * 10 ^ ndigits)) / 10 ^ ndigits"

subsection \<open>\<open>run_experiment\<close>: dispatch (lines 108-120)\<close>

text \<open>The three draws of one iteration of the submission loop (lines 114-116).\<close>

definition gen_request :: "int list \<Rightarrow> rat \<times> rat \<Rightarrow> rng \<Rightarrow> (exn + int \<times> int \<times> rat) \<times> rng" where
  "gen_request account_pool amount_range g =
     (case choice g account_pool of
        (Inl e, g1) \<Rightarrow> (Inl e, g1)
      | (Inr from_id, g1) \<Rightarrow>
          (case choice g1 (filter (\<lambda>a. a \<noteq> from_id) account_pool) of
             (Inl e, g2) \<Rightarrow> (Inl e, g2)
           | (Inr to_id, g2) \<Rightarrow>
               (case uniform g2 (fst amount_range) (snd amount_range) of
                  (x, g3) \<Rightarrow> (Inr (from_id, to_id, py_round x 2), g3))))"

text \<open>
  What a run meets outside the program: the generator, the database as the \<open>i\<close>-th
  submitted task sees it, the order in which the thread pool completes the futures, the
  clock, and whether opening each output file fails.
\<close>

record run_env =
  rng_state :: rng
  worker_env :: "nat \<Rightarrow> db_env"
  completion :: "nat \<Rightarrow> nat"
  start_run :: rat
  end_run :: rat
  open_detail_res :: "exn option"
  open_summary_res :: "exn option"
  utcnow_summary :: string

text \<open>
  A future holds what its call of \<open>worker_task\<close> returned or raised. The tasks share
  nothing but the database, so task \<open>i\<close> is \<open>worker_task\<close> run against \<open>worker_env i\<close>;
  \<open>tx_timeout\<close> has its default 30.
\<close>

type_synonym future = "exn + tx_result"

fun submit_loop ::
  "(nat \<Rightarrow> db_env) \<Rightarrow> string \<Rightarrow> string \<Rightarrow> int list \<Rightarrow> rat \<times> rat \<Rightarrow> nat list \<Rightarrow> rng \<Rightarrow>
   future list \<Rightarrow> (exn + future list) \<times> rng" where
  "submit_loop envs mode isolation_level account_pool amount_range [] g futures = (Inr futures, g)"
| "submit_loop envs mode isolation_level account_pool amount_range (i # rest) g futures =
     (case gen_request account_pool amount_range g of
        (Inl e, g') \<Rightarrow> (Inl e, g')
      | (Inr (from_id, to_id, amt), g') \<Rightarrow>
          submit_loop envs mode isolation_level account_pool amount_range rest g'
            (futures @ [fst (worker_task (envs i) mode isolation_level from_id to_id amt 30 [])]))"

text \<open>
  \<open>as_completed(futures)\<close> yields every future once, in the order they complete: the
  next one is any of those not yet yielded, here the one the oracle points at.
\<close>

fun yield_order :: "nat \<Rightarrow> (nat \<Rightarrow> nat) \<Rightarrow> 'a list \<Rightarrow> 'a list" where
  "yield_order 0 order pending = []"
| "yield_order (Suc n) order pending =
     (if pending = [] then []
      else (let k = order 0 mod length pending
            in pending ! k # yield_order n (\<lambda>j. order (Suc j)) (take k pending @ drop (Suc k) pending)))"

definition as_completed :: "(nat \<Rightarrow> nat) \<Rightarrow> 'a list \<Rightarrow> 'a list" where
  "as_completed order futures = yield_order (length futures) order futures"

text \<open>The loop of lines 118-119; \<open>f.result()\<close> re-raises what the task raised.\<close>

fun collect :: "future list \<Rightarrow> tx_result list \<Rightarrow> exn + tx_result list" where
  "collect [] results = Inr results"
| "collect (f # fs) results =
     (case f of Inl e \<Rightarrow> Inl e | Inr r \<Rightarrow> collect fs (results @ [r]))"

text \<open>
  Lines 108-120. \<open>ThreadPoolExecutor(max_workers=concurrency)\<close> raises \<open>ValueError\<close>
  unless \<open>concurrency > 0\<close>; \<open>range(total_ops)\<close> is empty for a negative \<open>total_ops\<close>.
\<close>

definition submit_all ::
  "run_env \<Rightarrow> int \<Rightarrow> string \<Rightarrow> string \<Rightarrow> int list \<Rightarrow> rat \<times> rat \<Rightarrow> (exn + future list) \<times> rng" where
  "submit_all env total_ops mode isolation_level account_pool amount_range =
     submit_loop (worker_env env) mode isolation_level account_pool amount_range
       [0 ..< nat total_ops] (rng_state env) []"

definition dispatch ::
  "run_env \<Rightarrow> int \<Rightarrow> int \<Rightarrow> string \<Rightarrow> string \<Rightarrow> int list \<Rightarrow> rat \<times> rat \<Rightarrow> exn + tx_result list" where
  "dispatch env concurrency total_ops mode isolation_level account_pool amount_range =
     (if concurrency \<le> 0 then Inl (ValueError ''max_workers must be greater than 0'')
      else
        (case submit_all env total_ops mode isolation_level account_pool amount_range of
           (Inl e, g) \<Rightarrow> Inl e
         | (Inr futures, g) \<Rightarrow> collect (as_completed (completion env) futures) []))"

subsection \<open>\<open>run_experiment\<close>: the two output files and the summary (lines 121-162)\<close>

text \<open>
  The detail file, the summary file and the standard output. A file is the list of
  the lines written to it; \<open>tell() == 0\<close> after opening for append says it is empty.
\<close>

record summary =
  sum_run_id :: int
  sum_mode :: string
  sum_isolation :: string
  sum_concurrency :: int
  sum_total_ops :: nat
  sum_completed :: nat
  sum_aborted :: nat
  sum_abort_rate_pct :: rat
  sum_avg_latency_s :: rat
  sum_p50_latency_s :: rat
  sum_throughput_ops_per_s :: rat
  sum_timestamp :: string

datatype detail_line = DetailHeader "string list" | DetailRow tx_result

datatype summary_line = SummaryHeader "string list" | SummaryRow summary

record files =
  detail_file :: "detail_line list"
  summary_file :: "summary_line list"
  stdout :: "string list"

definition detail_fieldnames :: "string list" where
  "detail_fieldnames =
     [''start_ts'', ''end_ts'', ''mode'', ''isolation'', ''from_id'', ''to_id'', ''amount'',
      ''status'', ''latency_s'', ''error'']"

definition summary_fieldnames :: "string list" where
  "summary_fieldnames =
     [''run_id'', ''mode'', ''isolation'', ''concurrency'', ''total_ops'', ''completed'',
      ''aborted'', ''abort_rate_pct'', ''avg_latency_s'', ''p50_latency_s'',
      ''throughput_ops_per_s'', ''timestamp'']"

text \<open>
  The body of the \<open>try\<close> of lines 123-130: \<open>open\<close>, then \<open>results[0]\<close>, which raises
  \<open>IndexError\<close> on an empty list, then the header if the file is empty, then the rows.
\<close>

definition write_detail_rows :: "exn option \<Rightarrow> tx_result list \<Rightarrow> files \<Rightarrow> exn + files" where
  "write_detail_rows open_res results fs =
     (case open_res of
        Some e \<Rightarrow> Inl e
      | None \<Rightarrow>
          (case results of
             [] \<Rightarrow> Inl (IndexError ''list index out of range'')
           | r0 # rest \<Rightarrow>
               Inr (fs\<lparr>detail_file :=
                     detail_file fs
                     @ (if detail_file fs = [] then [DetailHeader detail_fieldnames] else [])
                     @ map DetailRow results\<rparr>)))"

definition write_detail :: "exn option \<Rightarrow> tx_result list \<Rightarrow> files \<Rightarrow> files" where
  "write_detail open_res results fs =
     (case write_detail_rows open_res results fs of
        Inr fs' \<Rightarrow> fs'
      | Inl e \<Rightarrow> fs\<lparr>stdout := stdout fs @ [''No se pudo escribir detalle: '' @ exn_str e]\<rparr>)"

text \<open>Lines 154-161.\<close>

definition write_summary :: "exn option \<Rightarrow> summary \<Rightarrow> files \<Rightarrow> files" where
  "write_summary open_res summ fs =
     (case open_res of
        Some e \<Rightarrow> fs\<lparr>stdout := stdout fs @ [''No se pudo escribir resumen: '' @ exn_str e]\<rparr>
      | None \<Rightarrow>
          fs\<lparr>summary_file :=
               summary_file fs
               @ (if summary_file fs = [] then [SummaryHeader summary_fieldnames] else [])
               @ [SummaryRow summ]\<rparr>)"

text \<open>\<open>sub in s\<close> on strings.\<close>

fun contains :: "string \<Rightarrow> string \<Rightarrow> bool" where
  "contains sub [] = (sub = [])"
| "contains sub (c # cs) = (prefix sub (c # cs) \<or> contains sub cs)"

text \<open>
  The two tests of lines 136-137. A status is \<open>None\<close> or a string; \<open>None\<close> and the
  empty string are false in a condition.
\<close>

definition is_completed :: "string option \<Rightarrow> bool" where
  "is_completed s = (case s of None \<Rightarrow> False | Some t \<Rightarrow> t \<noteq> [] \<and> contains ''COMPLETADA'' t)"

definition is_aborted :: "string option \<Rightarrow> bool" where
  "is_aborted s =
     (case s of None \<Rightarrow> False
      | Some t \<Rightarrow> t \<noteq> [] \<and> (contains ''ABORT'' t \<or> contains ''CONN_ERR'' t))"

text \<open>\<open>statistics.mean\<close> and \<open>statistics.median\<close>, both called on non-empty lists only.\<close>

definition mean :: "rat list \<Rightarrow> rat" where
  "mean xs = sum_list xs / of_nat (length xs)"

definition median :: "rat list \<Rightarrow> rat" where
  "median xs =
     (let data = sort xs; n = length data
      in if n mod 2 = 1 then data ! (n div 2)
         else (data ! (n div 2 - 1) + data ! (n div 2)) / 2)"

text \<open>
  Lines 134-152. Every result is a non-empty dictionary whose latency is a float, so
  the filter of line 134 keeps all of them. \<open>now\<close> is what \<open>datetime.utcnow()\<close> reads
  at line 151.
\<close>

definition summarize ::
  "tx_result list \<Rightarrow> int \<Rightarrow> string \<Rightarrow> string \<Rightarrow> int \<Rightarrow> rat \<Rightarrow> rat \<Rightarrow> string \<Rightarrow> summary" where
  "summarize results run_id mode isolation_level concurrency t_start t_end now =
     (let latencies = map res_latency_s results;
          statuses = map res_status results;
          completed = length (filter is_completed statuses);
          aborted = length (filter is_aborted statuses);
          total = length results
      in \<lparr> sum_run_id = run_id,
           sum_mode = mode,
           sum_isolation = isolation_level,
           sum_concurrency = concurrency,
           sum_total_ops = total,
           sum_completed = completed,
           sum_aborted = aborted,
           sum_abort_rate_pct =
             (if total \<noteq> 0 then py_round (of_nat aborted / of_nat total * 100) 2 else 0),
           sum_avg_latency_s = (if latencies \<noteq> [] then py_round (mean latencies) 4 else 0),
           sum_p50_latency_s = (if latencies \<noteq> [] then py_round (median latencies) 4 else 0),
           sum_throughput_ops_per_s =
             (if t_end - t_start > 0 then py_round (of_nat total / (t_end - t_start)) 4 else 0),
           sum_timestamp = now @ ''Z'' \<rparr>)"

text \<open>The whole of \<open>run_experiment\<close>: what it returns or raises, and the files after it.\<close>

definition run_experiment ::
  "run_env \<Rightarrow> int \<Rightarrow> int \<Rightarrow> string \<Rightarrow> string \<Rightarrow> int list \<Rightarrow> rat \<times> rat \<Rightarrow> int \<Rightarrow> files \<Rightarrow>
   (exn + summary) \<times> files" where
  "run_experiment env concurrency total_ops mode isolation_level account_pool amount_range run_id fs =
     (case dispatch env concurrency total_ops mode isolation_level account_pool amount_range of
        Inl e \<Rightarrow> (Inl e, fs)
      | Inr results \<Rightarrow>
          (let fs1 = write_detail (open_detail_res env) results fs;
               summ = summarize results run_id mode isolation_level concurrency
                        (start_run env) (end_run env) (utcnow_summary env)
           in (Inr summ, write_summary (open_summary_res env) summ fs1)))"

subsection \<open>Concrete surroundings\<close>

text \<open>A database that answers every call and reports \<open>COMPLETADA\<close>, and variations of it.\<close>

definition env_ok :: db_env where
  "env_ok =
     \<lparr> connect_res = (\<lambda>k. Connected),
       cursor_res = None,
       execute_res = (\<lambda>q. None),
       fetchone_res = Inr (Some (Some ''COMPLETADA'')),
       commit_res = None,
       rollback_res = None,
       cur_close_res = None,
       conn_close_res = None,
       utcnow_start = ''2025-01-01T00:00:00'',
       time_start = 100,
       time_end = 101,
       utcnow_end = ''2025-01-01T00:00:01'' \<rparr>"

text \<open>The statement that sets the timeout fails.\<close>

definition env_timeout_stmt_fails :: db_env where
  "env_timeout_stmt_fails =
     env_ok\<lparr>execute_res :=
       (\<lambda>q. case q of SetTimeout ms \<Rightarrow> Some (OperationalError ''server closed the connection'')
             | _ \<Rightarrow> None)\<rparr>"

text \<open>The statement that opens the transaction fails.\<close>

definition env_begin_fails :: db_env where
  "env_begin_fails =
     env_ok\<lparr>execute_res :=
       (\<lambda>q. case q of Begin lvl \<Rightarrow> Some (OtherException ''syntax error'') | _ \<Rightarrow> None)\<rparr>"

text \<open>The transfer function returns no row.\<close>

definition env_no_row :: db_env where
  "env_no_row = env_ok\<lparr>fetchone_res := Inr None\<rparr>"

text \<open>The commit fails with a message that quotes the state \<open>COMPLETADA\<close>.\<close>

definition env_commit_fails :: db_env where
  "env_commit_fails =
     env_ok\<lparr>commit_res := Some (OtherException ''check failed: estado COMPLETADA'')\<rparr>"

text \<open>The server never accepts a connection.\<close>

definition env_unreachable :: db_env where
  "env_unreachable = env_ok\<lparr>connect_res := (\<lambda>k. ConnectFails (OperationalError ''refused''))\<rparr>"

definition run_env_ok :: run_env where
  "run_env_ok =
     \<lparr> rng_state = (\<lambda>n. n),
       worker_env = (\<lambda>i. env_ok),
       completion = (\<lambda>n. 1),
       start_run = 100,
       end_run = 102,
       open_detail_res = None,
       open_summary_res = None,
       utcnow_summary = ''2025-01-01T00:00:02'' \<rparr>"

definition no_files :: files where
  "no_files = \<lparr> detail_file = [], summary_file = [], stdout = [] \<rparr>"

text \<open>Runs whose every task meets a database that returns no row, or whose commit fails.\<close>

definition run_env_no_row :: run_env where
  "run_env_no_row = run_env_ok\<lparr>worker_env := (\<lambda>i. env_no_row)\<rparr>"

definition run_env_commit_fails :: run_env where
  "run_env_commit_fails = run_env_ok\<lparr>worker_env := (\<lambda>i. env_commit_fails)\<rparr>"

text \<open>Two results as \<open>worker_task\<close> returns them: a completed one and a refused one.\<close>

definition result_completed :: tx_result where
  "result_completed =
     \<lparr> res_start_ts = ''2025-01-01T00:00:00Z'', res_end_ts = ''2025-01-01T00:00:01Z'',
       res_mode = ''2pl'', res_isolation = ''READ COMMITTED'', res_from_id = 1, res_to_id = 2,
       res_amount = 10, res_status = Some ''COMPLETADA'', res_latency_s = 1, res_error = None \<rparr>"

definition result_refused :: tx_result where
  "result_refused =
     result_completed\<lparr>res_status := Some ''CONN_ERR: refused'', res_latency_s := 6,
       res_error := Some ''refused''\<rparr>"

subsection \<open>Notions the properties are stated with\<close>

text \<open>
  What \<open>make_conn\<close> returns or raises when the attempt with this outcome is its last,
  and whether an outcome is a failure the loop catches.
\<close>

definition attempt_result :: "conn_outcome \<Rightarrow> exn + session" where
  "attempt_result c = (case c of Connected \<Rightarrow> Inr Session | ConnectFails e \<Rightarrow> Inl e)"

definition is_transient :: "conn_outcome \<Rightarrow> bool" where
  "is_transient c = (case c of Connected \<Rightarrow> False | ConnectFails e \<Rightarrow> is_OperationalError e)"

text \<open>
  The calls of a run of the loop that starts with \<open>attempt = a\<close> and ends with
  \<open>attempt = j\<close>: before the call that follows the \<open>k\<close>-th failure it sleeps
  \<open>backoff * k\<close>; after its last call it does not sleep.
\<close>

definition retry_events :: "rat \<Rightarrow> nat \<Rightarrow> nat \<Rightarrow> event list" where
  "retry_events backoff a j =
     concat (map (\<lambda>k. [Connect, Sleep (backoff * of_nat k)]) [Suc a ..< Suc j]) @ [Connect]"

text \<open>
  What the status and error fields of a result have to say, told from the answers of the
  database alone. \<open>setup_failure\<close> is the first exception among establishing the
  connection, opening the cursor, setting the timeout and opening the transaction (lines
  57-61); \<open>release_failure\<close> is the exception the \<open>finally\<close> block ends with (lines 87-88).
  A failure of the setup, of the release or of the rollback is reported as \<open>CONN_ERR\<close>, a
  failure of the transfer or the commit that was rolled back as \<open>ABORT\<close>, and a run in which
  none of these failed reports the status of the operation and no error.
\<close>

definition setup_failure :: "db_env \<Rightarrow> string \<Rightarrow> int \<Rightarrow> event list \<Rightarrow> exn option" where
  "setup_failure env isolation_level tx_timeout tr =
     (case fst (make_conn (connect_res env) 3 1 tr) of
        Inl e \<Rightarrow> Some e
      | Inr conn \<Rightarrow>
          (case cursor_res env of
             Some e \<Rightarrow> Some e
           | None \<Rightarrow>
               (case execute_res env (SetTimeout (tx_timeout * 1000)) of
                  Some e \<Rightarrow> Some e
                | None \<Rightarrow> execute_res env (Begin isolation_level))))"

definition release_failure :: "db_env \<Rightarrow> exn option" where
  "release_failure env =
     (case cur_close_res env of Some e \<Rightarrow> Some e | None \<Rightarrow> conn_close_res env)"

definition conn_err :: "exn \<Rightarrow> string option \<times> string option" where
  "conn_err e =
     (Some (''CONN_ERR: '' @ replace_newlines (exn_str e)), Some (replace_newlines (exn_str e)))"

definition abort_err :: "exn \<Rightarrow> string option \<times> string option" where
  "abort_err e =
     (Some (''ABORT: '' @ replace_newlines (exn_str e)), Some (replace_newlines (exn_str e)))"

definition reported_outcome ::
  "db_env \<Rightarrow> string \<Rightarrow> string \<Rightarrow> int \<Rightarrow> int \<Rightarrow> rat \<Rightarrow> int \<Rightarrow> event list \<Rightarrow>
   string option \<times> string option" where
  "reported_outcome env mode isolation_level from_id to_id amt tx_timeout tr =
     (case setup_failure env isolation_level tx_timeout tr of
        Some e \<Rightarrow> conn_err e
      | None \<Rightarrow>
          (case release_failure env of
             Some e \<Rightarrow> conn_err e
           | None \<Rightarrow>
               (case fst (transfer_and_commit env mode from_id to_id amt []) of
                  Inr q \<Rightarrow> (fst q, None)
                | Inl e \<Rightarrow>
                    (case rollback_res env of
                       Some e' \<Rightarrow> conn_err e'
                     | None \<Rightarrow> abort_err e))))"

section \<open>Properties\<close>

subsection \<open>The connector\<close>

lemma retry_events_step:
  "a < j \<Longrightarrow> retry_events b a j = [Connect, Sleep (b * of_nat (Suc a))] @ retry_events b (Suc a) j"
  by (simp add: retry_events_def upt_conv_Cons)

lemma retry_events_same: "retry_events b a a = [Connect]"
  by (simp add: retry_events_def)

text \<open>
  Every run of the loop ends at some attempt \<open>j\<close>: all attempts before it failed with
  \<open>OperationalError\<close> within the budget, and attempt \<open>j\<close> succeeded, failed otherwise,
  or failed with \<open>OperationalError\<close> beyond the budget.
\<close>

lemma make_conn_loop_char:
  "\<exists>j\<ge>a. make_conn_loop connect mr b a tr = (attempt_result (connect j), tr @ retry_events b a j)
     \<and> (\<forall>k. a \<le> k \<and> k < j \<longrightarrow> is_transient (connect k) \<and> int (Suc k) \<le> mr)
     \<and> (is_transient (connect j) \<longrightarrow> mr < int (Suc j))"
proof (induction connect mr b a tr rule: make_conn_loop.induct)
  case (1 connect mr b a tr)
  show ?case
  proof (cases "is_transient (connect a) \<and> int (Suc a) \<le> mr")
    case False
    then have "make_conn_loop connect mr b a tr = (attempt_result (connect a), tr @ [Connect])"
      by (subst make_conn_loop.simps)
         (auto simp: is_transient_def attempt_result_def split: conn_outcome.splits)
    with False show ?thesis
      by (intro exI[of _ a]) (auto simp: retry_events_same)
  next
    case True
    then obtain e where e: "connect a = ConnectFails e" "is_OperationalError e" "\<not> int (a + 1) > mr"
      by (auto simp: is_transient_def split: conn_outcome.splits)
    from "1.IH"[OF e(1) e(2) e(3)] obtain j where j: "a + 1 \<le> j"
      "make_conn_loop connect mr b (a + 1) (tr @ [Connect, Sleep (b * of_nat (a + 1))]) =
         (attempt_result (connect j), (tr @ [Connect, Sleep (b * of_nat (a + 1))]) @ retry_events b (a + 1) j)"
      "\<forall>k. a + 1 \<le> k \<and> k < j \<longrightarrow> is_transient (connect k) \<and> int (Suc k) \<le> mr"
      "is_transient (connect j) \<longrightarrow> mr < int (Suc j)"
      by blast
    have lt: "a < j" using j(1) by simp
    have "make_conn_loop connect mr b a tr =
          make_conn_loop connect mr b (a + 1) (tr @ [Connect, Sleep (b * of_nat (a + 1))])"
      using e by (subst make_conn_loop.simps) simp
    also have "\<dots> = (attempt_result (connect j), tr @ retry_events b a j)"
      using j(2) retry_events_step[OF lt, of b] by simp
    finally have run:
      "make_conn_loop connect mr b a tr = (attempt_result (connect j), tr @ retry_events b a j)" .
    have all: "\<forall>k. a \<le> k \<and> k < j \<longrightarrow> is_transient (connect k) \<and> int (Suc k) \<le> mr"
    proof (intro allI impI)
      fix k assume k: "a \<le> k \<and> k < j"
      show "is_transient (connect k) \<and> int (Suc k) \<le> mr"
      proof (cases "k = a")
        case True with \<open>is_transient (connect a) \<and> int (Suc a) \<le> mr\<close> show ?thesis by simp
      next
        case False with k j(3) show ?thesis by simp
      qed
    qed
    show ?thesis
      using run all j(4) lt by (intro exI[of _ j]) simp
  qed
qed

text \<open>
  C6. \<open>make_conn\<close> ends after some number \<open>j\<close> of retries that is at most
  \<open>max_retries\<close> (none when \<open>max_retries\<close> is negative). Its calls are \<open>connect\<close>,
  \<open>sleep(backoff * 1)\<close>, \<open>connect\<close>, \<open>sleep(backoff * 2)\<close>, ..., \<open>connect\<close>: the sleep
  before retry \<open>k\<close> lasts \<open>backoff * k\<close> and nothing follows the last attempt. Every
  attempt before the last failed with \<open>OperationalError\<close>. The outcome of the last
  attempt is the outcome of \<open>make_conn\<close>; when that is an \<open>OperationalError\<close> too, the
  retries are used up and this last failure is what the caller gets.
\<close>

theorem make_conn_bounded_retries:
  "\<exists>j. int j \<le> max 0 max_retries
     \<and> make_conn connect max_retries backoff tr
         = (attempt_result (connect j), tr @ retry_events backoff 0 j)
     \<and> (\<forall>k<j. is_transient (connect k))
     \<and> (is_transient (connect j) \<longrightarrow> int j = max 0 max_retries)"
proof -
  from make_conn_loop_char[of 0 connect max_retries backoff tr]
  obtain j where j:
    "make_conn_loop connect max_retries backoff 0 tr
       = (attempt_result (connect j), tr @ retry_events backoff 0 j)"
    "\<forall>k. 0 \<le> k \<and> k < j \<longrightarrow> is_transient (connect k) \<and> int (Suc k) \<le> max_retries"
    "is_transient (connect j) \<longrightarrow> max_retries < int (Suc j)"
    by blast
  have bound: "int j \<le> max 0 max_retries"
  proof (cases j)
    case 0 then show ?thesis by simp
  next
    case (Suc i)
    with j(2) have "int (Suc i) \<le> max_retries" by simp
    with Suc show ?thesis by simp
  qed
  have ex: "is_transient (connect j) \<longrightarrow> int j = max 0 max_retries"
    using j(3) bound by (cases j) auto
  show ?thesis
    unfolding make_conn_def using j(1) j(2) bound ex by (intro exI[of _ j]) simp
qed

theorem make_conn_bounded_retries_witness:
  "make_conn (\<lambda>k. ConnectFails (OperationalError ''refused'')) 3 1 []
     = (Inl (OperationalError ''refused''),
        [Connect, Sleep 1, Connect, Sleep 2, Connect, Sleep 3, Connect])"
proof -
  from make_conn_bounded_retries[of 3 "\<lambda>k. ConnectFails (OperationalError ''refused'')" 1 "[]"]
  obtain j where j: "int j \<le> max 0 3"
    "make_conn (\<lambda>k. ConnectFails (OperationalError ''refused'')) 3 1 []
       = (attempt_result (ConnectFails (OperationalError ''refused'')), [] @ retry_events 1 0 j)"
    "is_transient (ConnectFails (OperationalError ''refused'')) \<longrightarrow> int j = max 0 3"
    by blast
  from j(3) have "j = 3" by (simp add: is_transient_def)
  with j(2) show ?thesis
    by (simp add: attempt_result_def retry_events_def upt_conv_Cons)
qed

text \<open>
  C10. Only \<open>OperationalError\<close> is retried. When the attempt that follows \<open>j\<close> failures
  with \<open>OperationalError\<close> (\<open>j = 0\<close>: the first attempt) raises any other exception,
  \<open>make_conn\<close> raises that exception at once: the call that raised is its last call, no
  sleep and no further attempt follows it.
\<close>

theorem make_conn_other_exception_immediate:
  assumes "\<forall>k<j. is_transient (connect k)"
    and "int j \<le> max_retries \<or> j = 0"
    and "connect j = ConnectFails e"
    and "\<not> is_OperationalError e"
  shows "make_conn connect max_retries backoff tr = (Inl e, tr @ retry_events backoff 0 j)"
proof -
  from make_conn_loop_char[of 0 connect max_retries backoff tr]
  obtain i where i:
    "make_conn_loop connect max_retries backoff 0 tr
       = (attempt_result (connect i), tr @ retry_events backoff 0 i)"
    "\<forall>k. 0 \<le> k \<and> k < i \<longrightarrow> is_transient (connect k) \<and> int (Suc k) \<le> max_retries"
    "is_transient (connect i) \<longrightarrow> max_retries < int (Suc i)"
    by blast
  have nt: "\<not> is_transient (connect j)"
    using assms(3,4) by (simp add: is_transient_def)
  have "\<not> i < j"
  proof
    assume lt: "i < j"
    with assms(1) have "is_transient (connect i)" by simp
    with i(3) have "max_retries < int (Suc i)" by simp
    moreover from lt assms(2) have "int (Suc i) \<le> max_retries" by auto
    ultimately show False by simp
  qed
  moreover have "\<not> j < i"
    using i(2) nt by auto
  ultimately have "i = j" by simp
  with i(1) assms(3) show ?thesis
    by (simp add: make_conn_def attempt_result_def)
qed

theorem make_conn_other_exception_immediate_witness:
  "make_conn (\<lambda>k. if k = 0 then ConnectFails (OperationalError ''refused'')
                   else ConnectFails (OtherException ''bad password'')) 3 1 []
     = (Inl (OtherException ''bad password''), [Connect, Sleep 1, Connect])
   \<and> make_conn (\<lambda>k. ConnectFails (OtherException ''bad password'')) 3 1 []
     = (Inl (OtherException ''bad password''), [Connect])"
proof -
  have a: "make_conn (\<lambda>k. if k = 0 then ConnectFails (OperationalError ''refused'')
                   else ConnectFails (OtherException ''bad password'')) 3 1 []
     = (Inl (OtherException ''bad password''), [] @ retry_events 1 0 1)"
    by (rule make_conn_other_exception_immediate) (simp_all add: is_transient_def)
  have b: "make_conn (\<lambda>k. ConnectFails (OtherException ''bad password'')) 3 1 []
     = (Inl (OtherException ''bad password''), [] @ retry_events 1 0 0)"
    by (rule make_conn_other_exception_immediate) (simp_all add: is_transient_def)
  from a b show ?thesis by (simp add: retry_events_def)
qed

subsection \<open>The transaction executor\<close>

lemmas worker_defs =
  worker_task_def worker_body_def make_conn_def make_conn_loop.simps
  transfer_and_commit_def run_mode_def status_of_row_def on_transfer_error_def on_worker_error_def
  release_def execute_def fetchone_def call_def io_bind_def io_return_def try_except_def
  try_finally_def replace_newlines_def Let_def

lemma io_bind_Inr:
  "io_bind m f tr = (Inr y, tr') \<Longrightarrow> \<exists>x tr1. m tr = (Inr x, tr1) \<and> f x tr1 = (Inr y, tr')"
  by (auto simp: io_bind_def split: prod.splits sum.splits)

lemma transfer_and_commit_Inr:
  "transfer_and_commit env mode from_id to_id amt tr = (Inr (st, err), tr') \<Longrightarrow> err = None"
  by (auto simp: transfer_and_commit_def io_return_def dest!: io_bind_Inr)

lemma on_transfer_error_Inr:
  "on_transfer_error env e tr = (Inr (st, err), tr') \<Longrightarrow>
     err = Some (replace_newlines (exn_str e)) \<and> st = Some (''ABORT: '' @ replace_newlines (exn_str e))"
  by (auto simp: on_transfer_error_def io_return_def Let_def dest!: io_bind_Inr)

lemma worker_task_returns:
  "\<exists>r. fst (worker_task env mode isolation_level from_id to_id amt tx_timeout tr) = Inr r"
  by (auto simp: worker_task_def io_bind_def try_except_def on_worker_error_def io_return_def Let_def
           split: prod.splits sum.splits)

text \<open>
  C1 at an input where it fails. The connection is established and the statement that
  sets the timeout raises. The outer handler turns this into a \<open>CONN_ERR\<close> result, and
  \<open>conn.close()\<close> is never called: the \<open>finally\<close> block that closes the session guards
  lines 63-81 only.
\<close>

theorem worker_task_leaves_session_open:
  "worker_task env_timeout_stmt_fails ''2pl'' ''READ COMMITTED'' 1 2 10 30 [] =
     (Inr \<lparr> res_start_ts = ''2025-01-01T00:00:00Z'', res_end_ts = ''2025-01-01T00:00:01Z'',
            res_mode = ''2pl'', res_isolation = ''READ COMMITTED'', res_from_id = 1,
            res_to_id = 2, res_amount = 10,
            res_status = Some ''CONN_ERR: server closed the connection'',
            res_latency_s = 1, res_error = Some ''server closed the connection'' \<rparr>,
      [Connect, Cursor, Execute (SetTimeout 30000)])
   \<and> count_list (snd (worker_task env_timeout_stmt_fails ''2pl'' ''READ COMMITTED'' 1 2 10 30 []))
        ConnClose = 0"
  by (simp add: worker_defs env_timeout_stmt_fails_def env_ok_def)

lemma transfer_and_commit_trace:
  "transfer_and_commit env mode from_id to_id amt tr =
     (fst (transfer_and_commit env mode from_id to_id amt []),
      tr @ snd (transfer_and_commit env mode from_id to_id amt []))"
  by (simp add: transfer_and_commit_def run_mode_def execute_def fetchone_def call_def
        io_bind_def io_return_def split: option.splits sum.splits)

text \<open>
  C3. \<open>worker_task\<close> never raises an \<open>Exception\<close>: whatever the mode, the isolation
  level and the answers of the database, it returns a result for the request it was given,
  and the status and error fields of that result are exactly \<open>reported_outcome\<close>: every
  failure of a call appears as a \<open>CONN_ERR: \<close> or \<open>ABORT: \<close> status with the message of the
  exception as error text, and only a run without such a failure has no error text and the
  status the operation reported.
\<close>

theorem worker_task_never_raises:
  "\<exists>r. fst (worker_task env mode isolation_level from_id to_id amt tx_timeout tr) = Inr r
     \<and> res_mode r = mode \<and> res_isolation r = isolation_level
     \<and> res_from_id r = from_id \<and> res_to_id r = to_id \<and> res_amount r = amt
     \<and> res_latency_s r = time_end env - time_start env
     \<and> (res_status r, res_error r)
         = reported_outcome env mode isolation_level from_id to_id amt tx_timeout tr"
proof -
  obtain mres trc where mc: "make_conn (connect_res env) 3 1 tr = (mres, trc)"
    by (cases "make_conn (connect_res env) 3 1 tr")
  obtain tcres tctr where tc0: "transfer_and_commit env mode from_id to_id amt [] = (tcres, tctr)"
    by (cases "transfer_and_commit env mode from_id to_id amt []")
  have tc: "transfer_and_commit env mode from_id to_id amt t = (tcres, t @ tctr)" for t
    using transfer_and_commit_trace[of env mode from_id to_id amt t] tc0 by simp
  have none: "snd q = None" if "tcres = Inr q" for q
    using transfer_and_commit_Inr[of env mode from_id to_id amt "[]" "fst q" "snd q" tctr] tc0 that
    by simp
  show ?thesis
  proof (cases mres)
    case (Inl e)
    with mc show ?thesis
      by (simp add: worker_task_def worker_body_def io_bind_def try_except_def on_worker_error_def
            io_return_def Let_def reported_outcome_def setup_failure_def conn_err_def)
  next
    case (Inr conn)
    show ?thesis
    proof (cases tcres)
      case tcl: (Inl e)
      with mc Inr tc0 show ?thesis
        by (simp add: worker_task_def worker_body_def io_bind_def try_except_def try_finally_def
              on_worker_error_def on_transfer_error_def release_def execute_def call_def
              io_return_def Let_def tc
              reported_outcome_def setup_failure_def release_failure_def conn_err_def abort_err_def
              split: option.splits)
    next
      case tcr: (Inr q)
      obtain st err where q: "q = (st, err)" by (cases q)
      with none[OF tcr] have err: "err = None" by simp
      with mc Inr tcr q tc0 show ?thesis
        by (simp add: worker_task_def worker_body_def io_bind_def try_except_def try_finally_def
              on_worker_error_def on_transfer_error_def release_def execute_def call_def
              io_return_def Let_def tc
              reported_outcome_def setup_failure_def release_failure_def conn_err_def abort_err_def
              split: option.splits)
    qed
  qed
qed


theorem worker_task_never_raises_witness:
  "(\<exists>r. fst (worker_task env_unreachable ''opt'' ''SERIALIZABLE'' 3 4 (25 / 2) 30 []) = Inr r
        \<and> res_status r = Some ''CONN_ERR: refused'' \<and> res_error r = Some ''refused'')
   \<and> (\<exists>r. fst (worker_task env_begin_fails ''ts'' ''SERIALIZABLE'' 3 4 (25 / 2) 30 []) = Inr r
        \<and> res_status r = Some ''CONN_ERR: syntax error'' \<and> res_error r = Some ''syntax error'')
   \<and> (\<exists>r. fst (worker_task env_commit_fails ''simple'' ''READ COMMITTED'' 1 2 10 30 []) = Inr r
        \<and> res_status r = Some ''ABORT: check failed: estado COMPLETADA''
        \<and> res_error r = Some ''check failed: estado COMPLETADA'')
   \<and> (\<exists>r. fst (worker_task env_ok ''2pl'' ''READ COMMITTED'' 1 2 10 30 []) = Inr r
        \<and> res_status r = Some ''COMPLETADA'' \<and> res_error r = None)"
proof -
  have a: "reported_outcome env_unreachable ''opt'' ''SERIALIZABLE'' 3 4 (25 / 2) 30 []
             = (Some ''CONN_ERR: refused'', Some ''refused'')"
    by (simp add: reported_outcome_def setup_failure_def conn_err_def make_conn_def
          make_conn_loop.simps replace_newlines_def env_unreachable_def env_ok_def)
  have b: "reported_outcome env_begin_fails ''ts'' ''SERIALIZABLE'' 3 4 (25 / 2) 30 []
             = (Some ''CONN_ERR: syntax error'', Some ''syntax error'')"
    by (simp add: reported_outcome_def setup_failure_def conn_err_def make_conn_def
          make_conn_loop.simps replace_newlines_def env_begin_fails_def env_ok_def)
  have c: "reported_outcome env_commit_fails ''simple'' ''READ COMMITTED'' 1 2 10 30 []
             = (Some ''ABORT: check failed: estado COMPLETADA'',
                Some ''check failed: estado COMPLETADA'')"
    by (simp add: reported_outcome_def setup_failure_def release_failure_def abort_err_def
          worker_defs env_commit_fails_def env_ok_def)
  have d: "reported_outcome env_ok ''2pl'' ''READ COMMITTED'' 1 2 10 30 []
             = (Some ''COMPLETADA'', None)"
    by (simp add: reported_outcome_def setup_failure_def release_failure_def worker_defs
          env_ok_def)
  from worker_task_never_raises[of env_unreachable "''opt''" "''SERIALIZABLE''" 3 4 "25 / 2" 30 "[]"]
  have A: "\<exists>r. fst (worker_task env_unreachable ''opt'' ''SERIALIZABLE'' 3 4 (25 / 2) 30 []) = Inr r
        \<and> res_status r = Some ''CONN_ERR: refused'' \<and> res_error r = Some ''refused''"
    unfolding a by auto
  from worker_task_never_raises[of env_begin_fails "''ts''" "''SERIALIZABLE''" 3 4 "25 / 2" 30 "[]"]
  have B: "\<exists>r. fst (worker_task env_begin_fails ''ts'' ''SERIALIZABLE'' 3 4 (25 / 2) 30 []) = Inr r
        \<and> res_status r = Some ''CONN_ERR: syntax error'' \<and> res_error r = Some ''syntax error''"
    unfolding b by auto
  from worker_task_never_raises[of env_commit_fails "''simple''" "''READ COMMITTED''" 1 2 10 30 "[]"]
  have C: "\<exists>r. fst (worker_task env_commit_fails ''simple'' ''READ COMMITTED'' 1 2 10 30 []) = Inr r
        \<and> res_status r = Some ''ABORT: check failed: estado COMPLETADA''
        \<and> res_error r = Some ''check failed: estado COMPLETADA''"
    unfolding c by auto
  from worker_task_never_raises[of env_ok "''2pl''" "''READ COMMITTED''" 1 2 10 30 "[]"]
  have D: "\<exists>r. fst (worker_task env_ok ''2pl'' ''READ COMMITTED'' 1 2 10 30 []) = Inr r
        \<and> res_status r = Some ''COMPLETADA'' \<and> res_error r = None"
    unfolding d by auto
  from A B C D show ?thesis by blast
qed

lemma is_aborted_ABORT: "is_aborted (Some (''ABORT: '' @ m))"
  by (simp add: is_aborted_def)

lemma is_aborted_CONN_ERR: "is_aborted (Some (''CONN_ERR: '' @ m))"
  by (simp add: is_aborted_def)

text \<open>
  C4, amended. Suppose the connection, the cursor, the timeout statement and the
  statement that opens the transaction succeeded, and the statement of the mode, its
  \<open>fetchone\<close> or the commit raised \<open>e\<close>. Then \<open>conn.rollback()\<close> is called, and after it
  only the cursor and the connection are closed. If the rollback and the two closes
  succeed, the result has the status \<open>ABORT: \<close> followed by the message of \<open>e\<close> (its
  newlines replaced), the same message as error text, and line 137 counts this status
  as aborted.
\<close>

theorem transfer_failure_rolls_back:
  assumes conn: "fst (make_conn (connect_res env) 3 1 tr) = Inr Session"
    and cur: "cursor_res env = None"
    and settimeout: "execute_res env (SetTimeout (tx_timeout * 1000)) = None"
    and begintx: "execute_res env (Begin isolation_level) = None"
    and fail: "fst (transfer_and_commit env mode from_id to_id amt []) = Inl e"
  shows "(\<exists>pre post. snd (worker_task env mode isolation_level from_id to_id amt tx_timeout tr)
                       = pre @ Rollback # post
                   \<and> set post \<subseteq> {CursorClose, ConnClose})
       \<and> (rollback_res env = None \<and> cur_close_res env = None \<and> conn_close_res env = None \<longrightarrow>
            (\<exists>r pre. worker_task env mode isolation_level from_id to_id amt tx_timeout tr
                      = (Inr r, pre @ [Rollback, CursorClose, ConnClose])
                  \<and> res_status r = Some (''ABORT: '' @ replace_newlines (exn_str e))
                  \<and> res_error r = Some (replace_newlines (exn_str e))
                  \<and> is_aborted (res_status r)))"
proof -
  obtain trc where mc: "make_conn (connect_res env) 3 1 tr = (Inr Session, trc)"
    using conn by (cases "make_conn (connect_res env) 3 1 tr") simp
  define tr1 where "tr1 = trc @ [Cursor, Execute (SetTimeout (tx_timeout * 1000)),
                                 Execute (Begin isolation_level)]"
  define tr2 where "tr2 = tr1 @ snd (transfer_and_commit env mode from_id to_id amt [])"
  have tc: "transfer_and_commit env mode from_id to_id amt tr1 = (Inl e, tr2)"
    using transfer_and_commit_trace[of env mode from_id to_id amt tr1] fail
    by (simp add: tr2_def)
  have body: "worker_body env mode isolation_level from_id to_id amt tx_timeout tr =
      try_finally (try_except (transfer_and_commit env mode from_id to_id amt)
             (on_transfer_error env)) (release env) tr1"
    using mc cur settimeout begintx
    by (simp add: worker_body_def io_bind_def call_def execute_def tr1_def)
  have handler: "try_except (transfer_and_commit env mode from_id to_id amt)
             (on_transfer_error env) tr1 =
       (case rollback_res env of
          None \<Rightarrow> Inr (Some (''ABORT: '' @ replace_newlines (exn_str e)),
                       Some (replace_newlines (exn_str e)))
        | Some e' \<Rightarrow> Inl e', tr2 @ [Rollback])"
    using tc
    by (simp add: try_except_def on_transfer_error_def io_bind_def call_def io_return_def Let_def
          split: option.splits)
  have trace: "\<exists>post. snd (worker_body env mode isolation_level from_id to_id amt tx_timeout tr)
                 = tr2 @ Rollback # post \<and> set post \<subseteq> {CursorClose, ConnClose}"
    unfolding body
    by (auto simp: try_finally_def handler release_def io_bind_def call_def
             split: option.splits)
  have wt_trace: "snd (worker_task env mode isolation_level from_id to_id amt tx_timeout tr)
      = snd (worker_body env mode isolation_level from_id to_id amt tx_timeout tr)"
    by (auto simp: worker_task_def io_bind_def try_except_def on_worker_error_def io_return_def
          Let_def split: prod.splits sum.splits)
  have first: "\<exists>pre post. snd (worker_task env mode isolation_level from_id to_id amt tx_timeout tr)
                       = pre @ Rollback # post \<and> set post \<subseteq> {CursorClose, ConnClose}"
    using trace unfolding wt_trace by blast
  have second: "\<exists>r pre. worker_task env mode isolation_level from_id to_id amt tx_timeout tr
                      = (Inr r, pre @ [Rollback, CursorClose, ConnClose])
                  \<and> res_status r = Some (''ABORT: '' @ replace_newlines (exn_str e))
                  \<and> res_error r = Some (replace_newlines (exn_str e))
                  \<and> is_aborted (res_status r)"
    if ok: "rollback_res env = None \<and> cur_close_res env = None \<and> conn_close_res env = None"
  proof -
    have "worker_body env mode isolation_level from_id to_id amt tx_timeout tr =
        (Inr (Some (''ABORT: '' @ replace_newlines (exn_str e)),
              Some (replace_newlines (exn_str e))), tr2 @ [Rollback, CursorClose, ConnClose])"
      unfolding body using ok
      by (simp add: try_finally_def handler release_def io_bind_def call_def)
    then show ?thesis
      using is_aborted_ABORT[of "replace_newlines (exn_str e)"]
      by (simp add: worker_task_def io_bind_def try_except_def io_return_def)
  qed
  from first second show ?thesis by blast
qed

theorem transfer_failure_rolls_back_witness:
  "(\<exists>pre post. snd (worker_task env_commit_fails ''simple'' ''READ COMMITTED'' 1 2 10 30 [])
                       = pre @ Rollback # post
                   \<and> set post \<subseteq> {CursorClose, ConnClose})
   \<and> (\<exists>r pre. worker_task env_commit_fails ''simple'' ''READ COMMITTED'' 1 2 10 30 []
                      = (Inr r, pre @ [Rollback, CursorClose, ConnClose])
                  \<and> res_status r = Some ''ABORT: check failed: estado COMPLETADA''
                  \<and> res_error r = Some ''check failed: estado COMPLETADA''
                  \<and> is_aborted (res_status r))"
proof -
  have h1: "fst (make_conn (connect_res env_commit_fails) 3 1 []) = Inr Session"
    by (simp add: make_conn_def make_conn_loop.simps env_commit_fails_def env_ok_def)
  have h2: "cursor_res env_commit_fails = None"
    by (simp add: env_commit_fails_def env_ok_def)
  have h3: "execute_res env_commit_fails (SetTimeout (30 * 1000)) = None"
    by (simp add: env_commit_fails_def env_ok_def)
  have h4: "execute_res env_commit_fails (Begin ''READ COMMITTED'') = None"
    by (simp add: env_commit_fails_def env_ok_def)
  have h5: "fst (transfer_and_commit env_commit_fails ''simple'' 1 2 10 [])
              = Inl (OtherException ''check failed: estado COMPLETADA'')"
    by (simp add: worker_defs env_commit_fails_def env_ok_def)
  have h6: "rollback_res env_commit_fails = None \<and> cur_close_res env_commit_fails = None
            \<and> conn_close_res env_commit_fails = None"
    by (simp add: env_commit_fails_def env_ok_def)
  from transfer_failure_rolls_back[OF h1 h2 h3 h4 h5] h6 show ?thesis
    by (simp add: replace_newlines_def)
qed

text \<open>
  C4 as stated fails: the statement that opens the transaction raises, no rollback is
  called, and the status is \<open>CONN_ERR: \<close> with the message, not \<open>ABORT: \<close>.
\<close>

theorem begin_failure_not_rolled_back:
  "execute_res env_begin_fails (Begin ''READ COMMITTED'') = Some (OtherException ''syntax error'')
   \<and> snd (worker_task env_begin_fails ''2pl'' ''READ COMMITTED'' 1 2 10 30 [])
       = [Connect, Cursor, Execute (SetTimeout 30000), Execute (Begin ''READ COMMITTED'')]
   \<and> Rollback \<notin> set (snd (worker_task env_begin_fails ''2pl'' ''READ COMMITTED'' 1 2 10 30 []))
   \<and> res_status (projr (fst (worker_task env_begin_fails ''2pl'' ''READ COMMITTED'' 1 2 10 30 [])))
       = Some ''CONN_ERR: syntax error''"
  by (simp add: worker_defs env_begin_fails_def env_ok_def)

subsection \<open>Request generation\<close>

lemma floor_rat_numeral_div:
  "\<lfloor>numeral a / numeral b :: rat\<rfloor> = numeral a div numeral b"
  by (metis floor_divide_of_int_eq of_int_numeral)

lemma floor_rat_neg_numeral_div:
  "\<lfloor>- (numeral a / numeral b) :: rat\<rfloor> = - numeral a div numeral b"
  by (metis divide_minus_left floor_divide_of_int_eq of_int_neg_numeral of_int_numeral)

lemma floor_rat_one_div: "\<lfloor>1 / numeral b :: rat\<rfloor> = 1 div numeral b"
  by (metis floor_divide_of_int_eq of_int_1 of_int_numeral)

lemmas gen_defs =
  gen_request_def choice_def uniform_def random_float_def rng_next_def
  py_round_def round_half_even_def Let_def
  floor_rat_numeral_div floor_rat_neg_numeral_div floor_rat_one_div

lemma round_half_even_ge_floor: "\<lfloor>y\<rfloor> \<le> round_half_even y"
  by (simp add: round_half_even_def Let_def)

lemma round_half_even_le_ceiling: "round_half_even y \<le> \<lceil>y\<rceil>"
proof (cases "y - of_int \<lfloor>y\<rfloor> < 1 / 2")
  case True
  then show ?thesis by (simp add: round_half_even_def Let_def floor_le_ceiling)
next
  case False
  then have "of_int \<lfloor>y\<rfloor> < y" by simp
  then have "\<lfloor>y\<rfloor> < \<lceil>y\<rceil>" by (simp add: less_ceiling_iff)
  then show ?thesis by (simp add: round_half_even_def Let_def)
qed

lemma round_half_even_near: "\<bar>of_int (round_half_even y) - y\<bar> \<le> 1 / 2"
proof -
  have "of_int \<lfloor>y\<rfloor> \<le> y" "y < of_int \<lfloor>y\<rfloor> + 1" by linarith+
  then show ?thesis by (auto simp: round_half_even_def Let_def)
qed

lemma py_round_2_hundredths: "\<exists>n::int. py_round x 2 = of_int n / 100"
  by (auto simp: py_round_def)

lemma py_round_2_near: "\<bar>py_round x 2 - x\<bar> \<le> 1 / 200"
proof -
  have "\<bar>of_int (round_half_even (x * 100)) - x * 100\<bar> \<le> 1 / 2"
    by (rule round_half_even_near)
  then show ?thesis by (simp add: py_round_def field_simps abs_le_iff)
qed

lemma py_round_2_within:
  assumes "of_int lo / 100 \<le> x" "x \<le> of_int hi / 100"
  shows "of_int lo / 100 \<le> py_round x 2 \<and> py_round x 2 \<le> of_int hi / 100"
proof -
  from assms have "of_int lo \<le> x * 100" "x * 100 \<le> of_int hi" by (simp_all add: field_simps)
  then have "lo \<le> \<lfloor>x * 100\<rfloor>" "\<lceil>x * 100\<rceil> \<le> hi"
    by (simp_all add: le_floor_iff ceiling_le_iff)
  with round_half_even_ge_floor[of "x * 100"] round_half_even_le_ceiling[of "x * 100"]
  have "lo \<le> round_half_even (x * 100)" "round_half_even (x * 100) \<le> hi" by linarith+
  then have "(of_int lo :: rat) \<le> of_int (round_half_even (x * 100))"
            "(of_int (round_half_even (x * 100)) :: rat) \<le> of_int hi"
    by (simp_all only: of_int_le_iff)
  then show ?thesis by (simp add: py_round_def field_simps)
qed

lemma uniform_between:
  assumes "a \<le> b" "uniform g a b = (x, g')"
  shows "a \<le> x \<and> x \<le> b"
proof -
  define u :: rat where "u = of_nat (g 0 mod 2 ^ 53) / 2 ^ 53"
  have "g 0 mod 2 ^ 53 < 2 ^ 53" by simp
  then have "(of_nat (g 0 mod 2 ^ 53) :: rat) < of_nat (2 ^ 53)" by (simp only: of_nat_less_iff)
  then have u: "0 \<le> u" "u \<le> 1" by (simp_all add: u_def)
  have x: "x = a + (b - a) * u"
    using assms(2) by (simp add: uniform_def random_float_def u_def)
  have "0 \<le> (b - a) * u" using assms(1) u(1) by simp
  moreover have "(b - a) * u \<le> (b - a) * 1"
    using assms(1) u(2) by (intro mult_left_mono) simp_all
  ultimately show ?thesis using x by simp
qed

lemma choice_member:
  "seq \<noteq> [] \<Longrightarrow> \<exists>x. choice g seq = (Inr x, rng_next g) \<and> x \<in> set seq"
  by (simp add: choice_def)

lemma gen_request_run:
  assumes pool: "\<exists>a\<in>set account_pool. \<exists>b\<in>set account_pool. a \<noteq> b"
  shows "\<exists>from_id to_id x g'.
           gen_request account_pool amount_range g = (Inr (from_id, to_id, py_round x 2), g')
         \<and> from_id \<in> set account_pool \<and> to_id \<in> set account_pool \<and> from_id \<noteq> to_id
         \<and> uniform (rng_next (rng_next g)) (fst amount_range) (snd amount_range) = (x, g')"
proof -
  from pool have ne: "account_pool \<noteq> []" by auto
  from choice_member[OF ne, of g] obtain from_id where
    c1: "choice g account_pool = (Inr from_id, rng_next g)" and m1: "from_id \<in> set account_pool"
    by blast
  from pool have "\<exists>b\<in>set account_pool. b \<noteq> from_id" by metis
  then have ne2: "filter (\<lambda>a. a \<noteq> from_id) account_pool \<noteq> []"
    by (auto simp: filter_empty_conv)
  from choice_member[OF ne2, of "rng_next g"] obtain to_id where
    c2: "choice (rng_next g) (filter (\<lambda>a. a \<noteq> from_id) account_pool)
           = (Inr to_id, rng_next (rng_next g))"
    and m2: "to_id \<in> set (filter (\<lambda>a. a \<noteq> from_id) account_pool)"
    by blast
  obtain x g' where u: "uniform (rng_next (rng_next g)) (fst amount_range) (snd amount_range) = (x, g')"
    by (cases "uniform (rng_next (rng_next g)) (fst amount_range) (snd amount_range)")
  have run: "gen_request account_pool amount_range g = (Inr (from_id, to_id, py_round x 2), g')"
    by (simp add: gen_request_def c1 c2 u)
  show ?thesis
    using run m1 m2 u
    by (intro exI[of _ from_id] exI[of _ to_id] exI[of _ x] exI[of _ g']) simp
qed

text \<open>
  C7. For every account pool with two distinct members and every amount range with
  \<open>min \<le> max\<close>, generating a request succeeds, both accounts are members of the pool and
  differ, and the amount is a value \<open>x\<close> within \<open>[min, max]\<close> rounded to two decimal places:
  \<open>round(x, 2)\<close>, a multiple of 0.01 at most 0.005 away from \<open>x\<close>. The rounded amount lies
  in \<open>[min, max]\<close> itself whenever \<open>min\<close> and \<open>max\<close> are multiples of 0.01.
\<close>

theorem gen_request_valid:
  assumes pool: "\<exists>a\<in>set account_pool. \<exists>b\<in>set account_pool. a \<noteq> b"
    and range: "fst amount_range \<le> snd amount_range"
  shows "\<exists>from_id to_id amt x g'.
           gen_request account_pool amount_range g = (Inr (from_id, to_id, amt), g')
         \<and> from_id \<in> set account_pool \<and> to_id \<in> set account_pool \<and> from_id \<noteq> to_id
         \<and> fst amount_range \<le> x \<and> x \<le> snd amount_range \<and> amt = py_round x 2
         \<and> (\<exists>n::int. amt = of_int n / 100) \<and> \<bar>amt - x\<bar> \<le> 1 / 200
         \<and> ((\<exists>lo hi::int. fst amount_range = of_int lo / 100 \<and> snd amount_range = of_int hi / 100)
              \<longrightarrow> fst amount_range \<le> amt \<and> amt \<le> snd amount_range)"
proof -
  from gen_request_run[OF pool, of amount_range g] obtain from_id to_id x g' where
    run: "gen_request account_pool amount_range g = (Inr (from_id, to_id, py_round x 2), g')"
    and mem: "from_id \<in> set account_pool" "to_id \<in> set account_pool" "from_id \<noteq> to_id"
    and u: "uniform (rng_next (rng_next g)) (fst amount_range) (snd amount_range) = (x, g')"
    by blast
  from uniform_between[OF range u] have xb: "fst amount_range \<le> x" "x \<le> snd amount_range"
    by simp_all
  have within: "(\<exists>lo hi::int. fst amount_range = of_int lo / 100 \<and> snd amount_range = of_int hi / 100)
              \<longrightarrow> fst amount_range \<le> py_round x 2 \<and> py_round x 2 \<le> snd amount_range"
  proof (intro impI)
    assume "\<exists>lo hi::int. fst amount_range = of_int lo / 100 \<and> snd amount_range = of_int hi / 100"
    then obtain lo hi :: int where
      lh: "fst amount_range = of_int lo / 100" "snd amount_range = of_int hi / 100"
      by blast
    from xb have "of_int lo / 100 \<le> x" "x \<le> of_int hi / 100"
      unfolding lh by this+
    from py_round_2_within[OF this] show
      "fst amount_range \<le> py_round x 2 \<and> py_round x 2 \<le> snd amount_range"
      unfolding lh .
  qed
  show ?thesis
    using run mem xb py_round_2_hundredths[of x] py_round_2_near[of x] within
    by (intro exI[of _ from_id] exI[of _ to_id] exI[of _ "py_round x 2"] exI[of _ x] exI[of _ g'])
       simp
qed

theorem gen_request_valid_witness:
  "\<exists>from_id to_id amt x g'.
           gen_request [1, 2, 3, 4] (1, 100) (\<lambda>n. n) = (Inr (from_id, to_id, amt), g')
         \<and> from_id \<in> set [1, 2, 3, 4] \<and> to_id \<in> set [1, 2, 3, 4] \<and> from_id \<noteq> to_id
         \<and> 1 \<le> x \<and> x \<le> 100 \<and> amt = py_round x 2
         \<and> (\<exists>n::int. amt = of_int n / 100) \<and> \<bar>amt - x\<bar> \<le> 1 / 200
         \<and> 1 \<le> amt \<and> amt \<le> 100"
proof -
  have pool: "\<exists>a\<in>set [1, 2, 3, 4 :: int]. \<exists>b\<in>set [1, 2, 3, 4]. a \<noteq> b" by auto
  have range: "fst (1 :: rat, 100 :: rat) \<le> snd (1 :: rat, 100 :: rat)" by simp
  have dec: "\<exists>lo hi::int. fst (1 :: rat, 100 :: rat) = of_int lo / 100
                         \<and> snd (1 :: rat, 100 :: rat) = of_int hi / 100"
    by (intro exI[of _ 100] exI[of _ 10000]) simp
  from gen_request_valid[OF pool range, of "\<lambda>n. n"] dec show ?thesis
    by (simp only: fst_conv snd_conv) blast
qed

text \<open>
  The rounding comes after the draw, so between bounds that are not multiples of 0.01 the
  rounded amount can leave the range by less than 0.005: with the range \<open>[1.001, 1.004]\<close>
  the amount generated is 1.0.
\<close>

lemma rounded_amount_outside_range:
  "fst (gen_request [1, 2] (1001 / 1000, 1004 / 1000) (\<lambda>n. 0)) = Inr (1, 2, 1)
   \<and> \<not> (1001 / 1000 \<le> (1 :: rat))"
  by (simp add: gen_defs)

subsection \<open>Dispatch\<close>

lemma mset_remove_nth:
  "k < length xs \<Longrightarrow> add_mset (xs ! k) (mset (take k xs @ drop (Suc k) xs)) = mset xs"
proof -
  assume k: "k < length xs"
  have "mset xs = mset (take k xs @ xs ! k # drop (Suc k) xs)"
    using id_take_nth_drop[OF k] by simp
  then show ?thesis by simp
qed

lemma mset_yield_order:
  "length pending \<le> n \<Longrightarrow> mset (yield_order n order pending) = mset pending"
proof (induction n arbitrary: order pending)
  case 0
  then show ?case by simp
next
  case (Suc n)
  show ?case
  proof (cases "pending = []")
    case True
    then show ?thesis by simp
  next
    case False
    define k where "k = order 0 mod length pending"
    from False have k: "k < length pending" by (simp add: k_def)
    have "length (take k pending @ drop (Suc k) pending) \<le> n"
      using Suc.prems k by simp
    from Suc.IH[OF this] mset_remove_nth[OF k] False show ?thesis
      by (simp add: Let_def k_def)
  qed
qed

lemma mset_as_completed: "mset (as_completed order futures) = mset futures"
  by (simp add: as_completed_def mset_yield_order)

lemma collect_all_returned: "collect (map Inr rs) results = Inr (results @ rs)"
  by (induction rs arbitrary: results) simp_all

lemma all_returned_map:
  "\<forall>f\<in>set fs. \<exists>r. f = Inr r \<Longrightarrow> map Inr (map projr fs) = fs"
  by (induction fs) auto

lemma submit_loop_succeeds:
  assumes pool: "\<exists>a\<in>set account_pool. \<exists>b\<in>set account_pool. a \<noteq> b"
  shows "\<exists>fs g'. submit_loop envs mode isolation_level account_pool amount_range idxs g futures
                   = (Inr (futures @ fs), g')
               \<and> length fs = length idxs
               \<and> (\<forall>k<length idxs. \<exists>from_id to_id amt.
                     from_id \<in> set account_pool \<and> to_id \<in> set account_pool \<and> from_id \<noteq> to_id
                   \<and> fs ! k = fst (worker_task (envs (idxs ! k)) mode isolation_level
                                     from_id to_id amt 30 []))"
proof (induction idxs arbitrary: g futures)
  case Nil
  then show ?case by simp
next
  case (Cons i rest)
  have "\<exists>from_id to_id amt g1. gen_request account_pool amount_range g = (Inr (from_id, to_id, amt), g1)
          \<and> from_id \<in> set account_pool \<and> to_id \<in> set account_pool \<and> from_id \<noteq> to_id"
    using gen_request_run[OF pool, of amount_range g] by blast
  then obtain from_id to_id amt g1 where
    gen: "gen_request account_pool amount_range g = (Inr (from_id, to_id, amt), g1)"
    and ok: "from_id \<in> set account_pool" "to_id \<in> set account_pool" "from_id \<noteq> to_id"
    by blast
  define f where "f = fst (worker_task (envs i) mode isolation_level from_id to_id amt 30 [])"
  from Cons.IH[of g1 "futures @ [f]"] obtain fs g' where
    run: "submit_loop envs mode isolation_level account_pool amount_range rest g1 (futures @ [f])
            = (Inr ((futures @ [f]) @ fs), g')"
    and len: "length fs = length rest"
    and each: "\<forall>k<length rest. \<exists>from_id to_id amt.
                     from_id \<in> set account_pool \<and> to_id \<in> set account_pool \<and> from_id \<noteq> to_id
                   \<and> fs ! k = fst (worker_task (envs (rest ! k)) mode isolation_level
                                     from_id to_id amt 30 [])"
    by blast
  have step: "submit_loop envs mode isolation_level account_pool amount_range (i # rest) g futures
          = (Inr (futures @ (f # fs)), g')"
    using gen run by (simp add: f_def)
  have all: "\<forall>k<length (i # rest). \<exists>from_id to_id amt.
                     from_id \<in> set account_pool \<and> to_id \<in> set account_pool \<and> from_id \<noteq> to_id
                   \<and> (f # fs) ! k = fst (worker_task (envs ((i # rest) ! k)) mode isolation_level
                                     from_id to_id amt 30 [])"
  proof (intro allI impI)
    fix k assume "k < length (i # rest)"
    show "\<exists>from_id to_id amt.
                     from_id \<in> set account_pool \<and> to_id \<in> set account_pool \<and> from_id \<noteq> to_id
                   \<and> (f # fs) ! k = fst (worker_task (envs ((i # rest) ! k)) mode isolation_level
                                     from_id to_id amt 30 [])"
    proof (cases k)
      case 0
      with ok show ?thesis by (auto simp: f_def)
    next
      case (Suc j)
      with \<open>k < length (i # rest)\<close> each show ?thesis by simp
    qed
  qed
  show ?case
    using step len all by (intro exI[of _ "f # fs"] exI[of _ g']) simp
qed


lemma futures_all_returned:
  "\<forall>f\<in>set fs. \<exists>r. f = Inr r"
  if "\<forall>k<length fs. \<exists>env mode isolation_level from_id to_id amt.
         fs ! k = fst (worker_task env mode isolation_level from_id to_id amt 30 [])"
proof
  fix f assume "f \<in> set fs"
  then obtain k where "k < length fs" "f = fs ! k" by (auto simp: in_set_conv_nth)
  with that obtain env mode isolation_level from_id to_id amt where
    "f = fst (worker_task env mode isolation_level from_id to_id amt 30 [])" by blast
  with worker_task_returns show "\<exists>r. f = Inr r" by simp
qed

text \<open>
  C5. For every run with \<open>concurrency \<ge> 1\<close>, \<open>total_ops \<ge> 0\<close> and an account pool with two
  distinct members (what the dispatcher needs to generate a request at all), every one of
  the \<open>total_ops\<close> iterations submits one task, task \<open>i\<close> being \<open>worker_task\<close> on a
  generated request, and \<open>run_experiment\<close> collects a list of exactly \<open>total_ops\<close>
  results holding the result of every future exactly once, whatever the order of
  completion and whatever the database did to each task.
\<close>

theorem dispatch_collects_every_result:
  assumes conc: "0 < concurrency"
    and total: "0 \<le> total_ops"
    and pool: "\<exists>a\<in>set account_pool. \<exists>b\<in>set account_pool. a \<noteq> b"
  shows "\<exists>futures results g'.
           submit_all env total_ops mode isolation_level account_pool amount_range = (Inr futures, g')
         \<and> length futures = nat total_ops
         \<and> (\<forall>i<nat total_ops. \<exists>from_id to_id amt.
               from_id \<in> set account_pool \<and> to_id \<in> set account_pool \<and> from_id \<noteq> to_id
             \<and> futures ! i = fst (worker_task (worker_env env i) mode isolation_level
                                    from_id to_id amt 30 []))
         \<and> dispatch env concurrency total_ops mode isolation_level account_pool amount_range
             = Inr results
         \<and> length results = nat total_ops
         \<and> mset (map Inr results) = mset futures"
proof -
  from submit_loop_succeeds[OF pool, of "worker_env env" mode isolation_level amount_range
         "[0 ..< nat total_ops]" "rng_state env" "[]"]
  obtain fs g' where
    run: "submit_all env total_ops mode isolation_level account_pool amount_range = (Inr fs, g')"
    and len: "length fs = nat total_ops"
    and each: "\<forall>k<nat total_ops. \<exists>from_id to_id amt.
                 from_id \<in> set account_pool \<and> to_id \<in> set account_pool \<and> from_id \<noteq> to_id
               \<and> fs ! k = fst (worker_task (worker_env env ([0 ..< nat total_ops] ! k)) mode
                                 isolation_level from_id to_id amt 30 [])"
    by (auto simp: submit_all_def)
  have each': "\<forall>i<nat total_ops. \<exists>from_id to_id amt.
               from_id \<in> set account_pool \<and> to_id \<in> set account_pool \<and> from_id \<noteq> to_id
             \<and> fs ! i = fst (worker_task (worker_env env i) mode isolation_level
                                    from_id to_id amt 30 [])"
    using each by simp
  have "\<forall>k<length fs. \<exists>env mode isolation_level from_id to_id amt.
         fs ! k = fst (worker_task env mode isolation_level from_id to_id amt 30 [])"
    using each' len by metis
  then have ret: "\<forall>f\<in>set fs. \<exists>r. f = Inr r" by (rule futures_all_returned)
  have perm: "mset (as_completed (completion env) fs) = mset fs" by (rule mset_as_completed)
  then have "set (as_completed (completion env) fs) = set fs" by (rule mset_eq_setD)
  with ret have "\<forall>f\<in>set (as_completed (completion env) fs). \<exists>r. f = Inr r" by simp
  from all_returned_map[OF this] obtain rs :: "tx_result list" where
    rs: "as_completed (completion env) fs = map Inr rs" by metis
  have disp: "dispatch env concurrency total_ops mode isolation_level account_pool amount_range
                = Inr rs"
    using conc run rs by (simp add: dispatch_def collect_all_returned)
  have "length rs = length (as_completed (completion env) fs)" by (simp add: rs)
  also have "\<dots> = length fs" using perm by (rule mset_eq_length)
  finally have lrs: "length rs = nat total_ops" using len by simp
  have "mset (map Inr rs :: future list) = mset fs" using perm by (simp add: rs)
  with run len each' disp lrs show ?thesis
    by (intro exI[of _ fs] exI[of _ rs] exI[of _ g']) simp
qed

theorem dispatch_collects_every_result_witness:
  "\<exists>futures results g'.
           submit_all run_env_ok 3 ''2pl'' ''READ COMMITTED'' [1, 2, 3, 4] (1, 100) = (Inr futures, g')
         \<and> length futures = 3
         \<and> dispatch run_env_ok 5 3 ''2pl'' ''READ COMMITTED'' [1, 2, 3, 4] (1, 100) = Inr results
         \<and> length results = 3
         \<and> mset (map Inr results) = mset futures"
proof -
  have pool: "\<exists>a\<in>set [1, 2, 3, 4 :: int]. \<exists>b\<in>set [1, 2, 3, 4]. a \<noteq> b" by auto
  from dispatch_collects_every_result[of 5 3 "[1, 2, 3, 4]" run_env_ok "''2pl''"
         "''READ COMMITTED''" "(1, 100)", OF _ _ pool]
  show ?thesis by simp blast
qed

text \<open>
  Without two distinct accounts no request can be generated: with a single account the
  second \<open>random.choice\<close> gets an empty list, and \<open>run_experiment\<close> raises \<open>IndexError\<close>
  from its first iteration.
\<close>

lemma dispatch_single_account_raises:
  "dispatch run_env_ok 5 1 ''2pl'' ''READ COMMITTED'' [1] (1, 100)
     = Inl (IndexError ''Cannot choose from an empty sequence'')"
  by (simp add: dispatch_def submit_all_def gen_request_def choice_def run_env_ok_def)

subsection \<open>Aggregation\<close>

lemmas run_defs =
  run_experiment_def dispatch_def submit_all_def as_completed_def write_detail_def
  write_detail_rows_def write_summary_def summarize_def is_completed_def is_aborted_def
  mean_def median_def upt_conv_Cons

lemma count_partition:
  "\<forall>x\<in>set xs. P x \<noteq> Q x \<Longrightarrow> length (filter P xs) + length (filter Q xs) = length xs"
  by (induction xs) auto

lemma count_disjoint:
  "\<forall>x\<in>set xs. \<not> (P x \<and> Q x) \<Longrightarrow> length (filter P xs) + length (filter Q xs) \<le> length xs"
  by (induction xs) auto

text \<open>
  C2, amended. The summary's total is the number of results. When every status falls into
  exactly one of the two buckets of lines 136-137 (completed: contains \<open>COMPLETADA\<close>;
  aborted: contains \<open>ABORT\<close> or \<open>CONN_ERR\<close>), completed plus aborted equals the total; when
  no status falls into both, the sum does not exceed the total.
\<close>

theorem summarize_counts_classified:
  "sum_total_ops (summarize results run_id mode isolation_level concurrency t_start t_end now)
     = length results
   \<and> ((\<forall>r\<in>set results. is_completed (res_status r) \<noteq> is_aborted (res_status r)) \<longrightarrow>
        sum_completed (summarize results run_id mode isolation_level concurrency t_start t_end now)
        + sum_aborted (summarize results run_id mode isolation_level concurrency t_start t_end now)
        = sum_total_ops (summarize results run_id mode isolation_level concurrency t_start t_end now))
   \<and> ((\<forall>r\<in>set results. \<not> (is_completed (res_status r) \<and> is_aborted (res_status r))) \<longrightarrow>
        sum_completed (summarize results run_id mode isolation_level concurrency t_start t_end now)
        + sum_aborted (summarize results run_id mode isolation_level concurrency t_start t_end now)
        \<le> sum_total_ops (summarize results run_id mode isolation_level concurrency t_start t_end now))"
proof -
  have a: "length (filter is_completed (map res_status results))
           + length (filter is_aborted (map res_status results)) = length results"
    if "\<forall>r\<in>set results. is_completed (res_status r) \<noteq> is_aborted (res_status r)"
    using count_partition[of "map res_status results" is_completed is_aborted] that by simp
  have b: "length (filter is_completed (map res_status results))
           + length (filter is_aborted (map res_status results)) \<le> length results"
    if "\<forall>r\<in>set results. \<not> (is_completed (res_status r) \<and> is_aborted (res_status r))"
    using count_disjoint[of "map res_status results" is_completed is_aborted] that by simp
  show ?thesis using a b by (simp add: summarize_def Let_def)
qed

theorem summarize_counts_classified_witness:
  "sum_total_ops (summarize [result_completed, result_refused] 1 ''2pl'' ''READ COMMITTED'' 5 100 102
      ''2025-01-01T00:00:02'') = 2
   \<and> sum_completed (summarize [result_completed, result_refused] 1 ''2pl'' ''READ COMMITTED'' 5 100 102
      ''2025-01-01T00:00:02'')
     + sum_aborted (summarize [result_completed, result_refused] 1 ''2pl'' ''READ COMMITTED'' 5 100 102
      ''2025-01-01T00:00:02'')
     = sum_total_ops (summarize [result_completed, result_refused] 1 ''2pl'' ''READ COMMITTED'' 5 100 102
      ''2025-01-01T00:00:02'')"
proof -
  have h: "\<forall>r\<in>set [result_completed, result_refused].
             is_completed (res_status r) \<noteq> is_aborted (res_status r)"
    by (simp add: result_completed_def result_refused_def is_completed_def is_aborted_def)
  from summarize_counts_classified[of "[result_completed, result_refused]" 1 "''2pl''"
         "''READ COMMITTED''" 5 100 102 "''2025-01-01T00:00:02''"] h
  show ?thesis by simp
qed

text \<open>
  C2 as stated fails. A transfer function that returns no row gives the status
  \<open>UNKNOWN\<close>, which is in neither bucket: the run has 1 result, 0 completed, 0 aborted.
  A commit that fails with a message quoting \<open>COMPLETADA\<close> gives a status in both buckets:
  1 result, 1 completed, 1 aborted.
\<close>

theorem unclassified_status_counts:
  "(case fst (run_experiment run_env_no_row 1 1 ''2pl'' ''READ COMMITTED'' [1, 2] (1, 100) 1 no_files) of
      Inl e \<Rightarrow> False
    | Inr s \<Rightarrow> sum_total_ops s = 1 \<and> sum_completed s = 0 \<and> sum_aborted s = 0)
   \<and> (case fst (run_experiment run_env_commit_fails 1 1 ''simple'' ''READ COMMITTED'' [1, 2] (1, 100) 1
                  no_files) of
      Inl e \<Rightarrow> False
    | Inr s \<Rightarrow> sum_total_ops s = 1 \<and> sum_completed s = 1 \<and> sum_aborted s = 1)"
  by (simp add: run_defs gen_defs worker_defs run_env_no_row_def run_env_commit_fails_def
        run_env_ok_def env_no_row_def env_commit_fails_def env_ok_def no_files_def)

text \<open>
  C8 at an input where it fails: \<open>total_ops = 0\<close>. \<open>results[0]\<close> raises \<open>IndexError\<close>
  inside the \<open>try\<close> of the detail file, the handler prints it, and the detail file stays
  empty, without a header. The summary is computed without a failure, all its counts
  and rates 0, and is written with its header.
\<close>

theorem empty_run_writes_no_detail_header:
  "run_experiment run_env_ok 5 0 ''simple'' ''READ COMMITTED'' [1, 2, 3, 4] (1, 100) 1 no_files =
     (Inr \<lparr> sum_run_id = 1, sum_mode = ''simple'', sum_isolation = ''READ COMMITTED'',
            sum_concurrency = 5, sum_total_ops = 0, sum_completed = 0, sum_aborted = 0,
            sum_abort_rate_pct = 0, sum_avg_latency_s = 0, sum_p50_latency_s = 0,
            sum_throughput_ops_per_s = 0, sum_timestamp = ''2025-01-01T00:00:02Z'' \<rparr>,
      \<lparr> detail_file = [],
        summary_file =
          [SummaryHeader summary_fieldnames,
           SummaryRow
             \<lparr> sum_run_id = 1, sum_mode = ''simple'', sum_isolation = ''READ COMMITTED'',
               sum_concurrency = 5, sum_total_ops = 0, sum_completed = 0, sum_aborted = 0,
               sum_abort_rate_pct = 0, sum_avg_latency_s = 0, sum_p50_latency_s = 0,
               sum_throughput_ops_per_s = 0, sum_timestamp = ''2025-01-01T00:00:02Z'' \<rparr>],
        stdout = [''No se pudo escribir detalle: list index out of range''] \<rparr>)"
  by (simp add: run_defs gen_defs run_env_ok_def no_files_def)

text \<open>
  C9, amended. Summarizing the same results with the same run parameters twice gives
  summaries that agree in every field but \<open>timestamp\<close>, which is the time each summary was
  made.
\<close>

theorem summarize_same_but_timestamp:
  "summarize results run_id mode isolation_level concurrency t_start t_end now2
     = (summarize results run_id mode isolation_level concurrency t_start t_end now1)
         \<lparr>sum_timestamp := now2 @ ''Z''\<rparr>"
  by (simp add: summarize_def Let_def)

text \<open>C9 as stated fails: two summaries made one second apart differ.\<close>

theorem summarize_twice_differs:
  "summarize [] 1 ''2pl'' ''SERIALIZABLE'' 5 100 102 ''2025-01-01T00:00:02''
     \<noteq> summarize [] 1 ''2pl'' ''SERIALIZABLE'' 5 100 102 ''2025-01-01T00:00:03''"
  by (simp add: summarize_def)

end
